theory Spec2Isabelle
  imports Main
begin

section \<open>Errors\<close>

text \<open>
  Go's \<open>error\<close> interface, with \<open>nil\<close> as \<open>None\<close> of \<open>error option\<close>.
  \<open>errorString\<close> is the value built by \<open>errors.New\<close>; \<open>aggregate\<close> is the value
  built by \<open>errors.NewAggregate\<close> of \<open>pkg/util/errors\<close>; \<open>CorruptInputError\<close> is the
  error of \<open>encoding/base64\<close> (the byte offset it carries is left out).
\<close>

datatype error =
    errorString string
  | aggregate "error list"
  | CorruptInputError

definition errors_New :: "string \<Rightarrow> error" where
  "errors_New text = errorString text"

text \<open>
  Modelled from the spec: \<open>errors.NewAggregate\<close> and the \<open>Error()\<close> method of the
  aggregate live in \<open>pkg/util/errors\<close>, which is not among the sources. The spec
  (section 4.1) says the union's result on exhaustion is ``a single error whose message
  concatenates/aggregates all collected per-authorizer errors (order preserved,
  duplicates allowed, no deduplication required)''. So for a list that is not empty
  \<open>NewAggregate\<close> returns the aggregate holding the list as it is, the message of an
  aggregate is the concatenation of its members' messages, and \<open>Errors\<close> gives the
  underlying errors. For the empty list the model does not follow the spec's sentence
  (``an aggregated-failure result with zero underlying errors''): the helper is
  documented to return nil when the slice is empty, and that is what it is here.
\<close>

definition NewAggregate :: "error list \<Rightarrow> error option" where
  "NewAggregate errlist = (if length errlist = 0 then None else Some (aggregate errlist))"

fun Error :: "error \<Rightarrow> string" where
  "Error (errorString s) = s"
| "Error (aggregate errs) = concat (map Error errs)"
| "Error CorruptInputError = ''illegal base64 data''"

fun Errors :: "error \<Rightarrow> error list" where
  "Errors (aggregate errs) = errs"
| "Errors e = [e]"


section \<open>Go's library: maps, strings and base64\<close>

text \<open>
  A Go string is a sequence of bytes, here a \<open>string\<close> of 8-bit characters. The
  functions below are those of the Go library that the source calls, on such strings.
\<close>

text \<open>Indexing a Go \<open>map[string]string\<close>: a key that is absent reads as the empty string.\<close>

definition map_index :: "(string \<rightharpoonup> string) \<Rightarrow> string \<Rightarrow> string" where
  "map_index m k = (case m k of None \<Rightarrow> [] | Some v \<Rightarrow> v)"

text \<open>\<open>strings.HasPrefix\<close>.\<close>

definition HasPrefix :: "string \<Rightarrow> string \<Rightarrow> bool" where
  "HasPrefix s pre = (length pre \<le> length s \<and> take (length pre) s = pre)"

text \<open>
  The white space of \<open>unicode.IsSpace\<close>, each rune in its UTF-8 encoding: the six of
  ASCII, U+0085, U+00A0, U+1680, U+2000 to U+200A, U+2028, U+2029, U+202F, U+205F, U+3000.
\<close>

definition space_runes :: "string list" where
  "space_runes =
     [[CHR 0x09], [CHR 0x0A], [CHR 0x0B], [CHR 0x0C], [CHR 0x0D], [CHR 0x20],
      [CHR 0xC2, CHR 0x85], [CHR 0xC2, CHR 0xA0],
      [CHR 0xE1, CHR 0x9A, CHR 0x80],
      [CHR 0xE2, CHR 0x80, CHR 0x80], [CHR 0xE2, CHR 0x80, CHR 0x81],
      [CHR 0xE2, CHR 0x80, CHR 0x82], [CHR 0xE2, CHR 0x80, CHR 0x83],
      [CHR 0xE2, CHR 0x80, CHR 0x84], [CHR 0xE2, CHR 0x80, CHR 0x85],
      [CHR 0xE2, CHR 0x80, CHR 0x86], [CHR 0xE2, CHR 0x80, CHR 0x87],
      [CHR 0xE2, CHR 0x80, CHR 0x88], [CHR 0xE2, CHR 0x80, CHR 0x89],
      [CHR 0xE2, CHR 0x80, CHR 0x8A],
      [CHR 0xE2, CHR 0x80, CHR 0xA8], [CHR 0xE2, CHR 0x80, CHR 0xA9],
      [CHR 0xE2, CHR 0x80, CHR 0xAF],
      [CHR 0xE2, CHR 0x81, CHR 0x9F],
      [CHR 0xE3, CHR 0x80, CHR 0x80]]"

text \<open>
  \<open>trim_runes runes s\<close> drops from the front of \<open>s\<close> every leading occurrence of one
  of \<open>runes\<close>. A string starts with the encoding of a white-space rune exactly when the
  rune that Go decodes at its start is that rune, and ends with it exactly when the last
  rune Go decodes is, so \<open>strings.TrimSpace\<close>, which is
  \<open>TrimRightFunc(TrimLeftFunc(s, unicode.IsSpace), unicode.IsSpace)\<close>, trims these runes
  at the front and, reversed, at the back.
\<close>

function trim_runes :: "string list \<Rightarrow> string \<Rightarrow> string" where
  "trim_runes runes s =
     (case find (\<lambda>r. r \<noteq> [] \<and> HasPrefix s r) runes of
        None \<Rightarrow> s
      | Some r \<Rightarrow> trim_runes runes (drop (length r) s))"
  by pat_completeness auto
termination
proof (relation "measure (\<lambda>(runes, s). length s)")
  show "wf (measure (\<lambda>(runes, s). length s))" by simp
next
  fix runes :: "string list" and s r :: string
  assume "find (\<lambda>r. r \<noteq> [] \<and> HasPrefix s r) runes = Some r"
  then have "r \<noteq> []" and "HasPrefix s r"
    by (auto simp: find_Some_iff)
  then have "0 < length r" and "length r \<le> length s"
    by (auto simp: HasPrefix_def)
  then have "length s - length r < length s"
    by arith
  then show "((runes, drop (length r) s), (runes, s)) \<in> measure (\<lambda>(runes, s). length s)"
    by simp
qed

declare trim_runes.simps [simp del]

definition TrimSpace :: "string \<Rightarrow> string" where
  "TrimSpace s = rev (trim_runes (map rev space_runes) (rev (trim_runes space_runes s)))"

text \<open>
  \<open>strings.Split\<close> and \<open>strings.SplitN\<close> for a separator of one byte, which is what the
  source passes (\<open>" "\<close> and \<open>":"\<close>). A byte that is not the separator joins the
  first part of what the rest splits into; that list is never empty, so the case of
  the empty list is never taken. The count of \<open>SplitN\<close> is a natural number: the source
  passes 2.
\<close>

fun Split :: "string \<Rightarrow> char \<Rightarrow> string list" where
  "Split [] sep = [[]]"
| "Split (c # s) sep =
     (if c = sep then [] # Split s sep
      else (case Split s sep of
              [] \<Rightarrow> [[c]]
            | part # parts \<Rightarrow> (c # part) # parts))"

fun SplitN :: "string \<Rightarrow> char \<Rightarrow> nat \<Rightarrow> string list" where
  "SplitN s sep 0 = []"
| "SplitN s sep (Suc 0) = [s]"
| "SplitN [] sep (Suc (Suc n)) = [[]]"
| "SplitN (c # s) sep (Suc (Suc n)) =
     (if c = sep then [] # SplitN s sep (Suc n)
      else (case SplitN s sep (Suc (Suc n)) of
              [] \<Rightarrow> [[c]]
            | part # parts \<Rightarrow> (c # part) # parts))"

text \<open>
  \<open>strings.ToLower\<close> on the runes that matter for the comparison with \<open>"basic"\<close>: the
  ASCII capitals, and U+0130 (bytes C4 B0), the one rune outside ASCII whose lower case
  is a letter of \<open>"basic"\<close> (it is \<open>i\<close>). Other bytes are left as they are; Go changes
  some of them, but never into a letter of \<open>"basic"\<close>, so the result is \<open>"basic"\<close> here
  exactly when it is in Go.
\<close>

definition lower_byte :: "char \<Rightarrow> char" where
  "lower_byte c =
     (let n = of_char c :: nat in if 65 \<le> n \<and> n \<le> 90 then char_of (n + 32) else c)"

fun ToLower :: "string \<Rightarrow> string" where
  "ToLower [] = []"
| "ToLower [c] = [lower_byte c]"
| "ToLower (c0 # c1 # s) =
     (if c0 = CHR 0xC4 \<and> c1 = CHR 0xB0 then CHR ''i'' # ToLower s
      else lower_byte c0 # ToLower (c1 # s))"

text \<open>
  \<open>encoding/base64\<close> with the standard alphabet and padding (\<open>StdEncoding\<close>, RFC 4648).
  Bytes are read as natural numbers below 256; a shift to the left is a multiplication
  taken modulo the width of the byte or of the 6-bit group, a shift to the right is a
  division, and the bit fields that Go joins with \<open>|\<close> do not overlap, so they are
  added. \<open>decodeMap\<close> is the inverse table that Go builds from the alphabet.
  \<open>DecodeString\<close> drops the bytes CR and LF and decodes groups of four characters:
  padding is required, may only end the input, and nothing may follow it.
\<close>

definition encodeStd :: string where
  "encodeStd = ''ABCDEFGHIJKLMNOPQRSTUVWXYZabcdefghijklmnopqrstuvwxyz0123456789+/''"

definition encode :: "nat \<Rightarrow> char" where
  "encode v = encodeStd ! v"

definition decodeMap :: "char \<rightharpoonup> nat" where
  "decodeMap = map_of (zip encodeStd [0..<length encodeStd])"

fun EncodeToString :: "string \<Rightarrow> string" where
  "EncodeToString [] = []"
| "EncodeToString [s0] =
     (let a = of_char s0 :: nat
      in [encode (a div 4), encode ((a * 16) mod 64), CHR ''='', CHR ''=''])"
| "EncodeToString [s0, s1] =
     (let a = of_char s0 :: nat; b = of_char s1 :: nat
      in [encode (a div 4), encode ((a * 16) mod 64 + b div 16), encode ((b * 4) mod 64), CHR ''=''])"
| "EncodeToString (s0 # s1 # s2 # src) =
     (let a = of_char s0 :: nat; b = of_char s1 :: nat; c = of_char s2 :: nat
      in encode (a div 4) # encode ((a * 16) mod 64 + b div 16)
         # encode ((b * 4) mod 64 + c div 64) # encode (c mod 64) # EncodeToString src)"

definition removeNewlines :: "string \<Rightarrow> string" where
  "removeNewlines s = filter (\<lambda>c. c \<noteq> CHR 0x0D \<and> c \<noteq> CHR 0x0A) s"

fun decode :: "string \<Rightarrow> error + string" where
  "decode [] = Inr []"
| "decode (c0 # c1 # c2 # c3 # src) =
     (case (decodeMap c0, decodeMap c1) of
        (Some v0, Some v1) \<Rightarrow>
          (if c2 = CHR ''='' then
             (if c3 = CHR ''='' \<and> src = [] then Inr [char_of ((v0 * 4) mod 256 + v1 div 16)]
              else Inl CorruptInputError)
           else
             (case decodeMap c2 of
                None \<Rightarrow> Inl CorruptInputError
              | Some v2 \<Rightarrow>
                  (if c3 = CHR ''='' then
                     (if src = [] then
                        Inr [char_of ((v0 * 4) mod 256 + v1 div 16),
                             char_of ((v1 * 16) mod 256 + v2 div 4)]
                      else Inl CorruptInputError)
                   else
                     (case decodeMap c3 of
                        None \<Rightarrow> Inl CorruptInputError
                      | Some v3 \<Rightarrow>
                          (case decode src of
                             Inl err \<Rightarrow> Inl err
                           | Inr dst \<Rightarrow>
                               Inr (char_of ((v0 * 4) mod 256 + v1 div 16)
                                    # char_of ((v1 * 16) mod 256 + v2 div 4)
                                    # char_of ((v2 * 64) mod 256 + v3) # dst))))))
      | _ \<Rightarrow> Inl CorruptInputError)"
| "decode _ = Inl CorruptInputError"

definition DecodeString :: "string \<Rightarrow> error + string" where
  "DecodeString s = decode (removeNewlines s)"


section \<open>Request attributes\<close>

text \<open>
  Modelled from the spec: \<open>authorizer.Attributes\<close> is declared in \<open>pkg/auth/authorizer\<close>,
  which is not among the sources. Spec section 3: ``Attributes: {subjectName: string,
  targetNamespace: string, ...other fields opaque to this core}''. The record is
  extensible, which stands for the opaque fields.
\<close>

record Attributes =
  UserName :: string
  Namespace :: string

definition GetUserName :: "'x Attributes_scheme \<Rightarrow> string" where
  "GetUserName a = UserName a"

definition GetNamespace :: "'x Attributes_scheme \<Rightarrow> string" where
  "GetNamespace a = Namespace a"


section \<open>The union authorizer\<close>

text \<open>
  An \<open>authorizer.Authorizer\<close> is an interface with one method,
  \<open>Authorize(a Attributes) error\<close>. A call may have effects (the keystone authorizer
  calls the identity provider), so a member is a function that takes the attributes and
  the state of the world and returns its verdict and the new state.
\<close>

type_synonym ('a, 's) Authorizer = "'a \<Rightarrow> 's \<Rightarrow> error option \<times> 's"

text \<open>
  The loop of \<open>unionAuthzHandler.Authorize\<close>: \<open>errlist\<close> is the local slice, the list
  argument is what is left of the range.
\<close>

fun unionAuthzHandler_loop ::
  "('a, 's) Authorizer list \<Rightarrow> 'a \<Rightarrow> error list \<Rightarrow> 's \<Rightarrow> error option \<times> 's" where
  "unionAuthzHandler_loop [] a errlist s = (NewAggregate errlist, s)"
| "unionAuthzHandler_loop (currAuthzHandler # rest) a errlist s =
     (case currAuthzHandler a s of
        (Some err, s') \<Rightarrow> unionAuthzHandler_loop rest a (errlist @ [err]) s'
      | (None, s') \<Rightarrow> (None, s'))"

definition unionAuthzHandler_Authorize ::
  "('a, 's) Authorizer list \<Rightarrow> 'a \<Rightarrow> 's \<Rightarrow> error option \<times> 's" where
  "unionAuthzHandler_Authorize authzHandler a s = unionAuthzHandler_loop authzHandler a [] s"

text \<open>
  \<open>deny_run hs a s\<close> runs the members \<open>hs\<close> in order from state \<open>s\<close> and is
  \<open>Some (errs, s')\<close> when each of them returned a non-nil error: \<open>errs\<close> are these
  errors in call order and \<open>s'\<close> is the state after the last call. It is \<open>None\<close> as
  soon as one member returns nil.
\<close>

fun deny_run :: "('a, 's) Authorizer list \<Rightarrow> 'a \<Rightarrow> 's \<Rightarrow> (error list \<times> 's) option" where
  "deny_run [] a s = Some ([], s)"
| "deny_run (h # hs) a s =
     (case h a s of
        (Some err, s') \<Rightarrow>
          (case deny_run hs a s' of
             Some (errs, s'') \<Rightarrow> Some (err # errs, s'')
           | None \<Rightarrow> None)
      | (None, s') \<Rightarrow> None)"

text \<open>
  \<open>in_order ms s\<close>: the strings \<open>ms\<close> occur in \<open>s\<close> one after the other, in the order of
  the list and without overlap (a string listed twice occurs twice).
\<close>

fun in_order :: "string list \<Rightarrow> string \<Rightarrow> bool" where
  "in_order [] s = True"
| "in_order (m # ms) s =
     (\<exists>i. i + length m \<le> length s \<and> take (length m) (drop i s) = m
          \<and> in_order ms (drop (i + length m) s))"

text \<open>
  Call-count instrumentation: \<open>counted i h\<close> behaves as \<open>h\<close> on the first component of
  the state and appends \<open>i\<close> to the log of calls kept in the second.
\<close>

definition counted :: "nat \<Rightarrow> ('a, 's) Authorizer \<Rightarrow> ('a, 's \<times> nat list) Authorizer" where
  "counted i h a sl = (case h a (fst sl) of (r, s') \<Rightarrow> (r, (s', snd sl @ [i])))"

definition always_deny :: "string \<Rightarrow> ('a, 's) Authorizer" where
  "always_deny reason a s = (Some (errors_New reason), s)"

definition always_allow :: "('a, 's) Authorizer" where
  "always_allow a s = (None, s)"

text \<open>\<open>instrument hs\<close> gives member number \<open>i\<close> of \<open>hs\<close> the log entry \<open>i\<close>.\<close>

definition instrument :: "('a, 's) Authorizer list \<Rightarrow> ('a, 's \<times> nat list) Authorizer list" where
  "instrument hs = map (\<lambda>(i, h). counted i h) (enumerate 0 hs)"


section \<open>The keystone authorizer\<close>

text \<open>
  \<open>users.User\<close> and \<open>tenants.Tenant\<close> are gophercloud's structs; the fields the
  authorizer reads are the id, the name and the enabled flag (the field names carry the
  struct's name where two records would share one).
\<close>

record User =
  User_ID :: string
  Username :: string
  User_Enabled :: bool

record Tenant =
  Tenant_ID :: string
  Tenant_Name :: string
  Tenant_Enabled :: bool

text \<open>
  \<open>Interface\<close> (types.go) abstracts the identity provider. Its methods reach the
  provider over the network, so each takes the state \<open>'c\<close> of the provider's side and
  returns it with the Go result tuple (a pair of the value and the error, nil as \<open>None\<close>).
\<close>

record 'c Interface =
  roleCheck :: "string \<Rightarrow> string \<Rightarrow> 'c \<Rightarrow> (bool \<times> error option) \<times> 'c"
  getUsers :: "'c \<Rightarrow> (User list \<times> error option) \<times> 'c"
  getTenants :: "'c \<Rightarrow> (Tenant list \<times> error option) \<times> 'c"

record 'c keystoneAuthorizer =
  osClient :: "'c Interface"
  userMap :: "string \<rightharpoonup> string"
  tenantMap :: "string \<rightharpoonup> string"

definition whiteList :: "string \<rightharpoonup> bool" where
  "whiteList = map_of
     [(''kubelet'', True),
      (''kube_proxy'', True),
      (''system:scheduler'', True),
      (''system:controller_manager'', True),
      (''system:logging'', True),
      (''system:monitoring'', True)]"

definition isWhiteListedUser :: "string \<Rightarrow> bool" where
  "isWhiteListedUser username = (case whiteList username of None \<Rightarrow> False | Some b \<Rightarrow> b)"

text \<open>
  \<open>keystoneAuthorizer.Authorize\<close>. The logging call is left out; the statement after
  the \<open>if hasRole\<close> of the source is unreachable.
\<close>

definition keystoneAuthorizer_Authorize ::
  "'c keystoneAuthorizer \<Rightarrow> ('x Attributes_scheme, 'c) Authorizer" where
  "keystoneAuthorizer_Authorize ka a c =
     (if HasPrefix (GetUserName a) ''system:serviceaccount:'' then (None, c)
      else if isWhiteListedUser (GetUserName a) then (None, c)
      else
        (case roleCheck (osClient ka)
                (map_index (userMap ka) (GetUserName a))
                (map_index (tenantMap ka) (GetNamespace a)) c of
           ((hasRole, Some err), c') \<Rightarrow>
              (Some (errors_New ''Keystone authorization failed''), c')
         | ((hasRole, None), c') \<Rightarrow>
              (if hasRole then (None, c')
               else (Some (errors_New ''User not authorized through keystone for namespace''), c'))))"

text \<open>
  \<open>syncTenantMap\<close> and \<open>syncUserMap\<close>: the loop fills a fresh map, which replaces the
  field only after the loop. The authorizer is returned with the error, since the method
  has a pointer receiver.
\<close>

fun syncTenantMap_loop :: "Tenant list \<Rightarrow> (string \<rightharpoonup> string) \<Rightarrow> (string \<rightharpoonup> string)" where
  "syncTenantMap_loop [] tenantMap' = tenantMap'"
| "syncTenantMap_loop (tenant # rest) tenantMap' =
     syncTenantMap_loop rest
       (if Tenant_Enabled tenant then tenantMap'(Tenant_Name tenant \<mapsto> Tenant_ID tenant)
        else tenantMap')"

definition syncTenantMap ::
  "'c keystoneAuthorizer \<Rightarrow> 'c \<Rightarrow> (error option \<times> 'c keystoneAuthorizer) \<times> 'c" where
  "syncTenantMap ka c =
     (case getTenants (osClient ka) c of
        ((tenantList, Some err), c') \<Rightarrow> ((Some err, ka), c')
      | ((tenantList, None), c') \<Rightarrow>
          ((None, ka\<lparr>tenantMap := syncTenantMap_loop tenantList Map.empty\<rparr>), c'))"

fun syncUserMap_loop :: "User list \<Rightarrow> (string \<rightharpoonup> string) \<Rightarrow> (string \<rightharpoonup> string)" where
  "syncUserMap_loop [] userMap' = userMap'"
| "syncUserMap_loop (user # rest) userMap' =
     syncUserMap_loop rest
       (if User_Enabled user then userMap'(Username user \<mapsto> User_ID user)
        else userMap')"

definition syncUserMap ::
  "'c keystoneAuthorizer \<Rightarrow> 'c \<Rightarrow> (error option \<times> 'c keystoneAuthorizer) \<times> 'c" where
  "syncUserMap ka c =
     (case getUsers (osClient ka) c of
        ((userList, Some err), c') \<Rightarrow> ((Some err, ka), c')
      | ((userList, None), c') \<Rightarrow>
          ((None, ka\<lparr>userMap := syncUserMap_loop userList Map.empty\<rparr>), c'))"

text \<open>
  \<open>OpenstackClient\<close>, the implementation of \<open>Interface\<close> over gophercloud. A pager
  of gophercloud is taken as the list of what its fetches deliver, in order: a fetch
  fails (\<open>Inl\<close>) or delivers a page. A page is taken as what the \<open>Extract\<close> function
  of its kind makes of it. \<open>EachPage\<close> runs the handler on every page until a fetch or
  the handler fails or the handler returns false; \<open>'h\<close> is the variable the handler's
  closure writes. \<open>ServiceClient\<close> stands for the provider behind \<open>authClient\<close>: the
  three listings the client asks for.
\<close>

type_synonym Role = string
type_synonym 'p Pager = "(error + 'p) list"

fun EachPage ::
  "'p Pager \<Rightarrow> ('p \<Rightarrow> 'h \<Rightarrow> (bool \<times> error option) \<times> 'h) \<Rightarrow> 'h \<Rightarrow> error option \<times> 'h" where
  "EachPage [] handler h = (None, h)"
| "EachPage (Inl err # rest) handler h = (Some err, h)"
| "EachPage (Inr page # rest) handler h =
     (case handler page h of
        ((ok, Some err), h') \<Rightarrow> (Some err, h')
      | ((ok, None), h') \<Rightarrow> (if ok then EachPage rest handler h' else (None, h')))"

record 'c ServiceClient =
  users_ListRoles :: "string \<Rightarrow> string \<Rightarrow> 'c \<Rightarrow> (Role list \<times> error option) Pager \<times> 'c"
  tenants_List :: "'c \<Rightarrow> (Tenant list \<times> error option) Pager \<times> 'c"
  users_List :: "'c \<Rightarrow> (User list \<times> error option) Pager \<times> 'c"

definition roleCheck_handler :: "Role list \<times> error option \<Rightarrow> bool \<Rightarrow> (bool \<times> error option) \<times> bool" where
  "roleCheck_handler page hasRole =
     (case page of
        (roleList, Some err) \<Rightarrow> ((False, Some err), hasRole)
      | (roleList, None) \<Rightarrow> ((True, None), (if length roleList > 0 then True else hasRole)))"

definition OpenstackClient_roleCheck ::
  "'c ServiceClient \<Rightarrow> string \<Rightarrow> string \<Rightarrow> 'c \<Rightarrow> (bool \<times> error option) \<times> 'c" where
  "OpenstackClient_roleCheck authClient userID tenantID c =
     (if userID = [] then ((False, Some (errors_New ''UserID null during authorization'')), c)
      else if tenantID = [] then ((False, Some (errors_New ''UserID null during authorization'')), c)
      else
        (case users_ListRoles authClient tenantID userID c of
           (pager, c') \<Rightarrow>
             (case EachPage pager roleCheck_handler False of
                (Some err, hasRole) \<Rightarrow> ((False, Some err), c')
              | (None, hasRole) \<Rightarrow> ((hasRole, None), c'))))"

definition extract_handler :: "'l \<times> error option \<Rightarrow> 'l \<Rightarrow> (bool \<times> error option) \<times> 'l" where
  "extract_handler page l =
     (case page of
        (l', Some err) \<Rightarrow> ((False, Some err), l')
      | (l', None) \<Rightarrow> ((True, None), l'))"

definition OpenstackClient_getTenants ::
  "'c ServiceClient \<Rightarrow> 'c \<Rightarrow> (Tenant list \<times> error option) \<times> 'c" where
  "OpenstackClient_getTenants authClient c =
     (case tenants_List authClient c of
        (pager, c') \<Rightarrow>
          (case EachPage pager extract_handler [] of
             (Some err, tenantList) \<Rightarrow> (([], Some err), c')
           | (None, tenantList) \<Rightarrow> ((tenantList, None), c')))"

definition OpenstackClient_getUsers ::
  "'c ServiceClient \<Rightarrow> 'c \<Rightarrow> (User list \<times> error option) \<times> 'c" where
  "OpenstackClient_getUsers authClient c =
     (case users_List authClient c of
        (pager, c') \<Rightarrow>
          (case EachPage pager extract_handler [] of
             (Some err, userList) \<Rightarrow> (([], Some err), c')
           | (None, userList) \<Rightarrow> ((userList, None), c')))"

definition OpenstackClient :: "'c ServiceClient \<Rightarrow> 'c Interface" where
  "OpenstackClient authClient =
     \<lparr>roleCheck = OpenstackClient_roleCheck authClient,
      getUsers = OpenstackClient_getUsers authClient,
      getTenants = OpenstackClient_getTenants authClient\<rparr>"


section \<open>The keystone request authenticator\<close>

text \<open>
  \<open>user.Info\<close> is an interface; the one implementation the source builds is
  \<open>user.DefaultInfo\<close>, and a nil \<open>user.Info\<close> is \<open>None\<close>. \<open>authenticator.Password\<close> is the
  interface of the password-checking collaborator: its one method takes the username
  and the password and returns \<open>(user.Info, bool, error)\<close>; \<open>'w\<close> is the state of
  whatever the collaborator talks to.
\<close>

record DefaultInfo =
  Name :: string
  UID :: string
  Groups :: "string list"

type_synonym 'w Password =
  "string \<Rightarrow> string \<Rightarrow> 'w \<Rightarrow> (DefaultInfo option \<times> bool \<times> error option) \<times> 'w"

text \<open>
  \<open>OpenstackClient.AuthenticatePassword\<close> of the authenticator package.
  \<open>openstack.AuthenticatedClient\<close> belongs to gophercloud and is a parameter: it takes
  the options and returns a client, which the source drops, and an error.
\<close>

record AuthOptions =
  IdentityEndpoint :: string
  AuthOptions_Username :: string
  AuthOptions_Password :: string

definition OpenstackClient_AuthenticatePassword ::
  "(AuthOptions \<Rightarrow> 'w \<Rightarrow> error option \<times> 'w) \<Rightarrow> string \<Rightarrow> 'w Password" where
  "OpenstackClient_AuthenticatePassword AuthenticatedClient authURL username password w =
     (let opts = \<lparr>IdentityEndpoint = authURL,
                  AuthOptions_Username = username,
                  AuthOptions_Password = password\<rparr>
      in case AuthenticatedClient opts w of
           (Some err, w') \<Rightarrow> ((None, False, Some (errors_New ''Failed to authenticate'')), w')
         | (None, w') \<Rightarrow> ((Some \<lparr>Name = username, UID = [], Groups = []\<rparr>, True, None), w'))"

text \<open>
  An \<open>http.Request\<close> is read for its header only. \<open>Header.Get\<close> returns the first value
  stored under the key, the empty string when there is none (\<open>Authorization\<close> is already
  in canonical form).
\<close>

record Request =
  Header :: "string \<rightharpoonup> string list"

definition Header_Get :: "(string \<rightharpoonup> string list) \<Rightarrow> string \<Rightarrow> string" where
  "Header_Get h key = (case h key of None \<Rightarrow> [] | Some [] \<Rightarrow> [] | Some (v # vs) \<Rightarrow> v)"

record 'w KeystoneAuthenticator =
  authenticator_osClient :: "'w Password"

definition AuthenticateRequest ::
  "'w KeystoneAuthenticator \<Rightarrow> Request \<Rightarrow> 'w \<Rightarrow> (DefaultInfo option \<times> bool \<times> error option) \<times> 'w" where
  "AuthenticateRequest a req w =
     (let auth = TrimSpace (Header_Get (Header req) ''Authorization'') in
      if auth = [] then
        ((None, False, Some (errors_New ''Authorization header isempty, failing request'')), w)
      else
        let parts = Split auth CHR '' '' in
        if length parts < 2 \<or> ToLower (parts ! 0) \<noteq> ''basic'' then
          ((None, False, Some (errors_New ''invalid header'')), w)
        else
          (case DecodeString (parts ! 1) of
             Inl err \<Rightarrow> ((None, False, Some err), w)
           | Inr payload \<Rightarrow>
               let pair = SplitN payload CHR '':'' 2 in
               if length pair \<noteq> 2 then
                 ((None, False, Some (errors_New ''malformed basic auth header'')), w)
               else
                 let username = pair ! 0; password = pair ! 1 in
                 authenticator_osClient a username password w))"

text \<open>
  The credential the authenticator reads from a header value: the steps of
  \<open>AuthenticateRequest\<close> before the call of the collaborator, with the error of the
  step that rejects the header.
\<close>

definition decodeBasicAuth :: "string \<Rightarrow> error + string \<times> string" where
  "decodeBasicAuth header =
     (let auth = TrimSpace header in
      if auth = [] then Inl (errors_New ''Authorization header isempty, failing request'')
      else
        let parts = Split auth CHR '' '' in
        if length parts < 2 \<or> ToLower (parts ! 0) \<noteq> ''basic'' then Inl (errors_New ''invalid header'')
        else
          (case DecodeString (parts ! 1) of
             Inl err \<Rightarrow> Inl err
           | Inr payload \<Rightarrow>
               let pair = SplitN payload CHR '':'' 2 in
               if length pair \<noteq> 2 then Inl (errors_New ''malformed basic auth header'')
               else Inr (pair ! 0, pair ! 1)))"


section \<open>Test doubles and sample data\<close>

text \<open>
  Collaborators whose state is a counter of the calls made to them, and the cache state
  of the end-to-end example of the spec (section 8).
\<close>

definition sample_attributes :: Attributes where
  "sample_attributes = \<lparr>UserName = ''user1'', Namespace = ''tenant1''\<rparr>"

definition failing_client :: "error \<Rightarrow> nat Interface" where
  "failing_client err =
     \<lparr>roleCheck = (\<lambda>userID tenantID c. ((False, Some err), Suc c)),
      getUsers = (\<lambda>c. (([], Some err), Suc c)),
      getTenants = (\<lambda>c. (([], Some err), Suc c))\<rparr>"

definition sample_roleCheck :: "string \<Rightarrow> string \<Rightarrow> nat \<Rightarrow> (bool \<times> error option) \<times> nat" where
  "sample_roleCheck userID tenantID c =
     ((userID = ''12'' \<and> (tenantID = ''123'' \<or> tenantID = ''234''), None), Suc c)"

definition sample_client :: "nat Interface" where
  "sample_client =
     \<lparr>roleCheck = sample_roleCheck,
      getUsers = (\<lambda>c. (([\<lparr>User_ID = ''12'', Username = ''user1'', User_Enabled = True\<rparr>], None), Suc c)),
      getTenants = (\<lambda>c. (([\<lparr>Tenant_ID = ''123'', Tenant_Name = ''tenant1'', Tenant_Enabled = True\<rparr>,
                              \<lparr>Tenant_ID = ''234'', Tenant_Name = ''tenant2'', Tenant_Enabled = True\<rparr>], None), Suc c))\<rparr>"

definition sample_authorizer :: "nat Interface \<Rightarrow> nat keystoneAuthorizer" where
  "sample_authorizer client =
     \<lparr>osClient = client,
      userMap = [''user1'' \<mapsto> ''12''],
      tenantMap = [''tenant1'' \<mapsto> ''123'', ''tenant2'' \<mapsto> ''234'']\<rparr>"

definition granting_client :: "bool \<Rightarrow> nat Interface" where
  "granting_client b =
     \<lparr>roleCheck = (\<lambda>userID tenantID c. ((b, None), Suc c)),
      getUsers = (\<lambda>c. (([], None), Suc c)),
      getTenants = (\<lambda>c. (([], None), Suc c))\<rparr>"

definition sample_service :: "nat ServiceClient" where
  "sample_service =
     \<lparr>users_ListRoles = (\<lambda>tenantID userID c. ([Inr ([''admin''], None)], Suc c)),
      tenants_List = (\<lambda>c. ([], Suc c)),
      users_List = (\<lambda>c. ([], Suc c))\<rparr>"

definition user1_tenant1 :: Attributes where
  "user1_tenant1 = \<lparr>UserName = ''user1'', Namespace = ''tenant1''\<rparr>"

definition user1_tenant3 :: Attributes where
  "user1_tenant3 = \<lparr>UserName = ''user1'', Namespace = ''tenant3''\<rparr>"

text \<open>
  The client of the authorizer's test (keystone_test.go of the authorizer package) with
  its sample sets, and the authorizer as \<open>TestAuthorize\<close> prepares it: both maps synced
  from that client.
\<close>

definition getTenantSampleSet :: "Tenant list \<times> error option" where
  "getTenantSampleSet =
     ([\<lparr>Tenant_ID = ''123'', Tenant_Name = ''tenant1'', Tenant_Enabled = True\<rparr>,
       \<lparr>Tenant_ID = ''234'', Tenant_Name = ''tenant2'', Tenant_Enabled = True\<rparr>,
       \<lparr>Tenant_ID = ''345'', Tenant_Name = ''tenant3'', Tenant_Enabled = True\<rparr>], None)"

definition getUserSampleSet :: "User list \<times> error option" where
  "getUserSampleSet =
     ([\<lparr>User_ID = ''12'', Username = ''user1'', User_Enabled = True\<rparr>,
       \<lparr>User_ID = ''23'', Username = ''user2'', User_Enabled = True\<rparr>,
       \<lparr>User_ID = ''34'', Username = ''user3'', User_Enabled = True\<rparr>,
       \<lparr>User_ID = ''56'', Username = ''user4'', User_Enabled = True\<rparr>], None)"

definition sampleRoleSet :: "string \<rightharpoonup> string list" where
  "sampleRoleSet = map_of
     [(''123:12'', [''admin'']),
      (''234:12'', [''admin'', ''user'']),
      (''456:23'', [''admin''])]"

definition testOpenstackClient :: "'c Interface" where
  "testOpenstackClient =
     \<lparr>roleCheck = (\<lambda>userID tenantID c.
        (let roleMap = sampleRoleSet; key = tenantID @ '':'' @ userID
         in if length (case roleMap key of None \<Rightarrow> [] | Some roles \<Rightarrow> roles) > 0
            then ((True, None), c) else ((False, None), c))),
      getUsers = (\<lambda>c. (getUserSampleSet, c)),
      getTenants = (\<lambda>c. (getTenantSampleSet, c))\<rparr>"

definition TestAuthorize_auth :: "'c \<Rightarrow> 'c keystoneAuthorizer" where
  "TestAuthorize_auth c =
     (let auth = \<lparr>osClient = testOpenstackClient, userMap = Map.empty, tenantMap = Map.empty\<rparr>;
          auth = snd (fst (syncTenantMap auth c));
          auth = snd (fst (syncUserMap auth c))
      in auth)"

text \<open>
  The collaborator of the authenticator's test (keystone_test.go of the authenticator
  package), an identity service that accepts one credential and answers any other with
  an error, and a request that carries one Authorization header.
\<close>

definition userPasswordMap :: "string \<rightharpoonup> string" where
  "userPasswordMap = map_of
     [(''user1'', ''password1''),
      (''user2'', ''password2''),
      (''user3'', ''password3''),
      (''user4'', ''password4''),
      (''user5'', ''password5''),
      (''user6'', ''password6''),
      (''user7'', ''password7''),
      (''user8'', ''password8''),
      (''user9'', ''password8'')]"

definition testOpenstackClient_AuthenticatePassword :: "'w Password" where
  "testOpenstackClient_AuthenticatePassword username password w =
     (if map_index userPasswordMap username = password
      then ((Some \<lparr>Name = username, UID = [], Groups = []\<rparr>, True, None), w)
      else ((None, False, None), w))"

definition keystone_stub :: "AuthOptions \<Rightarrow> nat \<Rightarrow> error option \<times> nat" where
  "keystone_stub opts w =
     (if AuthOptions_Username opts = ''user1'' \<and> AuthOptions_Password opts = ''password1''
      then (None, Suc w)
      else (Some (errorString ''Authentication failed''), Suc w))"

definition request_with :: "string \<Rightarrow> Request" where
  "request_with header = \<lparr>Header = [''Authorization'' \<mapsto> [header]]\<rparr>"


section \<open>Properties of the union authorizer\<close>

lemma unionAuthzHandler_loop_deny:
  "deny_run hs a s = Some (errs, s') \<Longrightarrow>
   unionAuthzHandler_loop (hs @ rest) a errlist s = unionAuthzHandler_loop rest a (errlist @ errs) s'"
proof (induction hs arbitrary: s errs errlist)
  case Nil
  then show ?case by simp
next
  case (Cons h hs)
  from Cons.prems obtain err s1 errs1 where
    h: "h a s = (Some err, s1)" and
    r: "deny_run hs a s1 = Some (errs1, s')" and
    e: "errs = err # errs1"
    by (auto split: prod.splits option.splits)
  from Cons.IH [OF r, of "errlist @ [err]"] h e show ?case by simp
qed



lemma deny_run_counted:
  "deny_run hs a s = Some (errs, s') \<Longrightarrow>
   deny_run (map (\<lambda>(i, h). counted i h) (enumerate n hs)) a (s, log)
     = Some (errs, (s', log @ [n..<n + length hs]))"
proof (induction hs arbitrary: s errs n log)
  case Nil
  then show ?case by simp
next
  case (Cons h hs)
  from Cons.prems obtain err s1 errs1 where
    h: "h a s = (Some err, s1)" and
    r: "deny_run hs a s1 = Some (errs1, s')" and
    e: "errs = err # errs1"
    by (auto split: prod.splits option.splits)
  have "[n..<n + length (h # hs)] = n # [Suc n..<Suc n + length hs]"
    by (simp add: upt_rec)
  with Cons.IH [OF r, of "Suc n" "log @ [n]"] h e show ?case
    by (simp add: counted_def)
qed

lemma deny_run_length: "deny_run hs a s = Some (errs, s') \<Longrightarrow> length errs = length hs"
  by (induction hs arbitrary: s errs) (auto split: prod.splits option.splits)

text \<open>
  C2. Let member \<open>k\<close> of the list return nil, every member before it having returned
  a non-nil error (\<open>deny_run\<close> on the first \<open>k\<close> members, started in the state of the
  call). Then Authorize returns nil in the state member \<open>k\<close> left, and no member after
  \<open>k\<close> is invoked: with every member instrumented, the log of calls is \<open>0, ..., k\<close>.
\<close>

theorem union_first_grant_short_circuits:
  assumes k: "k < length hs"
    and before: "deny_run (take k hs) a s = Some (errs, s1)"
    and grant: "(hs ! k) a s1 = (None, s2)"
  shows "unionAuthzHandler_Authorize hs a s = (None, s2)
       \<and> unionAuthzHandler_Authorize (instrument hs) a (s, []) = (None, (s2, [0..<Suc k]))"
proof -
  from k have split: "hs = take k hs @ (hs ! k) # drop (Suc k) hs"
    by (simp add: id_take_nth_drop)
  have "unionAuthzHandler_loop (take k hs @ (hs ! k) # drop (Suc k) hs) a [] s = (None, s2)"
    using unionAuthzHandler_loop_deny [OF before] grant by simp
  with split have plain: "unionAuthzHandler_Authorize hs a s = (None, s2)"
    by (simp add: unionAuthzHandler_Authorize_def)
  let ?c = "\<lambda>(i, h). counted i h"
  have len: "length (take k hs) = k" using k by simp
  have "instrument hs = map ?c (enumerate 0 (take k hs))
          @ counted k (hs ! k) # map ?c (enumerate (Suc k) (drop (Suc k) hs))"
    unfolding instrument_def
    by (subst split) (simp only: enumerate_append_eq map_append enumerate_simps list.map
          len prod.case add_0)
  moreover have "deny_run (map ?c (enumerate 0 (take k hs))) a (s, [])
                   = Some (errs, (s1, [0..<k]))"
    using deny_run_counted [OF before, of 0 "[]"] len by simp
  moreover have "counted k (hs ! k) a (s1, [0..<k]) = (None, (s2, [0..<Suc k]))"
    using grant by (simp add: counted_def)
  ultimately have "unionAuthzHandler_Authorize (instrument hs) a (s, []) = (None, (s2, [0..<Suc k]))"
    using unionAuthzHandler_loop_deny
    by (simp add: unionAuthzHandler_Authorize_def unionAuthzHandler_loop_deny)
  with plain show ?thesis by simp
qed

lemma in_order_concat: "in_order ms (concat ms)"
proof (induction ms)
  case Nil
  show ?case by simp
next
  case (Cons m ms)
  have "0 + length m \<le> length (concat (m # ms))
        \<and> take (length m) (drop 0 (concat (m # ms))) = m
        \<and> in_order ms (drop (0 + length m) (concat (m # ms)))"
    using Cons.IH by simp
  then show ?case by (subst in_order.simps) blast
qed

text \<open>
  C3. When every member of a non-empty list returns a non-nil error, Authorize returns
  one error, the aggregate of exactly the members' errors in list order: as many errors
  as members, so duplicates are kept; its message holds the members' messages one
  after the other, in that order.
\<close>

theorem union_all_deny_aggregates:
  assumes "hs \<noteq> []" and "deny_run hs a s = Some (errs, s')"
  shows "unionAuthzHandler_Authorize hs a s = (Some (aggregate errs), s')
       \<and> length errs = length hs
       \<and> Error (aggregate errs) = concat (map Error errs)
       \<and> in_order (map Error errs) (Error (aggregate errs))"
  using unionAuthzHandler_loop_deny [OF assms(2), of "[]" "[]"] deny_run_length [OF assms(2)]
    in_order_concat [of "map Error errs"] assms(1)
  by (simp add: unionAuthzHandler_Authorize_def NewAggregate_def)

theorem union_first_grant_short_circuits_witness:
  "1 < length [always_deny ''first'', always_allow, always_deny ''third'' :: (Attributes, nat) Authorizer]
   \<and> deny_run (take 1 [always_deny ''first'', always_allow, always_deny ''third'']) sample_attributes (0::nat)
       = Some ([errorString ''first''], 0)
   \<and> ([always_deny ''first'', always_allow, always_deny ''third''] ! 1) sample_attributes (0::nat) = (None, 0)
   \<and> unionAuthzHandler_Authorize [always_deny ''first'', always_allow, always_deny ''third''] sample_attributes (0::nat)
       = (None, 0)
   \<and> unionAuthzHandler_Authorize (instrument [always_deny ''first'', always_allow, always_deny ''third''])
         sample_attributes (0::nat, []) = (None, (0, [0, 1]))"
proof -
  let ?hs = "[always_deny ''first'', always_allow, always_deny ''third''] :: (Attributes, nat) Authorizer list"
  have k: "1 < length ?hs" by simp
  have before: "deny_run (take 1 ?hs) sample_attributes (0::nat) = Some ([errorString ''first''], 0)"
    by (simp add: always_deny_def errors_New_def)
  have grant: "(?hs ! 1) sample_attributes (0::nat) = (None, 0)"
    by (simp add: always_allow_def)
  have "[0..<Suc 1] = [0, 1::nat]" by (simp add: upt_rec)
  with union_first_grant_short_circuits [OF k before grant] k before grant
  show ?thesis by simp
qed

theorem union_all_deny_aggregates_witness:
  "[always_deny ''no'', always_deny ''never'', always_deny ''no''] \<noteq> ([] :: (Attributes, nat) Authorizer list)
   \<and> deny_run [always_deny ''no'', always_deny ''never'', always_deny ''no''] sample_attributes (7::nat)
       = Some ([errorString ''no'', errorString ''never'', errorString ''no''], 7)
   \<and> unionAuthzHandler_Authorize [always_deny ''no'', always_deny ''never'', always_deny ''no''] sample_attributes (7::nat)
       = (Some (aggregate [errorString ''no'', errorString ''never'', errorString ''no'']), 7)
   \<and> Error (aggregate [errorString ''no'', errorString ''never'', errorString ''no'']) = ''nonever'' @ ''no''"
proof -
  let ?hs = "[always_deny ''no'', always_deny ''never'', always_deny ''no''] :: (Attributes, nat) Authorizer list"
  have ne: "?hs \<noteq> []" by simp
  have run: "deny_run ?hs sample_attributes (7::nat)
      = Some ([errorString ''no'', errorString ''never'', errorString ''no''], 7)"
    by (simp add: always_deny_def errors_New_def)
  from union_all_deny_aggregates [OF ne run] ne run show ?thesis by simp
qed


section \<open>Properties of the keystone authorizer\<close>

text \<open>
  C4. A subject whose name starts with \<open>system:serviceaccount:\<close> or is on the compiled-in
  allowlist is granted, whatever the authorizer's client and maps are, and the state of
  the provider's side is the one before the call: \<open>roleCheck\<close> is not invoked.
\<close>

theorem keystone_privileged_subjects_granted:
  "HasPrefix (GetUserName a) ''system:serviceaccount:'' \<or> isWhiteListedUser (GetUserName a) \<Longrightarrow>
   keystoneAuthorizer_Authorize ka a c = (None, c)"
  by (auto simp: keystoneAuthorizer_Authorize_def)

theorem keystone_privileged_subjects_granted_witness:
  "HasPrefix (GetUserName \<lparr>UserName = ''system:serviceaccount:default:builder'', Namespace = ''tenant3''\<rparr>)
      ''system:serviceaccount:''
   \<and> keystoneAuthorizer_Authorize (sample_authorizer (failing_client (errorString ''down'')))
        \<lparr>UserName = ''system:serviceaccount:default:builder'', Namespace = ''tenant3''\<rparr> 0 = (None, 0)
   \<and> isWhiteListedUser (GetUserName \<lparr>UserName = ''kubelet'', Namespace = ''tenant3''\<rparr>)
   \<and> keystoneAuthorizer_Authorize (sample_authorizer (failing_client (errorString ''down'')))
        \<lparr>UserName = ''kubelet'', Namespace = ''tenant3''\<rparr> 0 = (None, 0)"
proof -
  let ?a1 = "\<lparr>UserName = ''system:serviceaccount:default:builder'', Namespace = ''tenant3''\<rparr>"
  let ?a2 = "\<lparr>UserName = ''kubelet'', Namespace = ''tenant3''\<rparr>"
  have p: "HasPrefix (GetUserName ?a1) ''system:serviceaccount:''"
    by (simp add: HasPrefix_def GetUserName_def)
  have w: "isWhiteListedUser (GetUserName ?a2)"
    by (simp add: isWhiteListedUser_def whiteList_def GetUserName_def)
  from p w
    keystone_privileged_subjects_granted [of ?a1 "sample_authorizer (failing_client (errorString ''down''))" 0]
    keystone_privileged_subjects_granted [of ?a2 "sample_authorizer (failing_client (errorString ''down''))" 0]
  show ?thesis by blast
qed

text \<open>
  C6. If the call of \<open>syncUserMap\<close> to \<open>getUsers\<close> returns an error, \<open>syncUserMap\<close>
  returns that error and the authorizer is as before, so \<open>userMap\<close> holds what it held;
  the same for \<open>syncTenantMap\<close>, \<open>getTenants\<close> and \<open>tenantMap\<close>.
\<close>

theorem sync_failure_keeps_maps:
  "(getUsers (osClient ka) c = ((userList, Some err), c') \<longrightarrow>
      syncUserMap ka c = ((Some err, ka), c')
      \<and> userMap (snd (fst (syncUserMap ka c))) = userMap ka)
   \<and> (getTenants (osClient ka) c = ((tenantList, Some err), c') \<longrightarrow>
      syncTenantMap ka c = ((Some err, ka), c')
      \<and> tenantMap (snd (fst (syncTenantMap ka c))) = tenantMap ka)"
  by (simp add: syncUserMap_def syncTenantMap_def)

theorem sync_failure_keeps_maps_witness:
  "getUsers (osClient (sample_authorizer (failing_client (errorString ''down'')))) 0
      = (([], Some (errorString ''down'')), 1)
   \<and> syncUserMap (sample_authorizer (failing_client (errorString ''down''))) 0
      = ((Some (errorString ''down''), sample_authorizer (failing_client (errorString ''down''))), 1)
   \<and> map_index (userMap (snd (fst (syncUserMap (sample_authorizer (failing_client (errorString ''down''))) 0))))
        ''user1'' = ''12''
   \<and> getTenants (osClient (sample_authorizer (failing_client (errorString ''down'')))) 0
      = (([], Some (errorString ''down'')), 1)
   \<and> syncTenantMap (sample_authorizer (failing_client (errorString ''down''))) 0
      = ((Some (errorString ''down''), sample_authorizer (failing_client (errorString ''down''))), 1)
   \<and> map_index (tenantMap (snd (fst (syncTenantMap (sample_authorizer (failing_client (errorString ''down''))) 0))))
        ''tenant2'' = ''234''"
proof -
  let ?ka = "sample_authorizer (failing_client (errorString ''down''))"
  have u: "getUsers (osClient ?ka) 0 = (([], Some (errorString ''down'')), 1)"
    by (simp add: sample_authorizer_def failing_client_def)
  have t: "getTenants (osClient ?ka) 0 = (([], Some (errorString ''down'')), 1)"
    by (simp add: sample_authorizer_def failing_client_def)
  have mu: "map_index (userMap ?ka) ''user1'' = ''12''"
    by (simp add: sample_authorizer_def map_index_def)
  have mt: "map_index (tenantMap ?ka) ''tenant2'' = ''234''"
    by (simp add: sample_authorizer_def map_index_def)
  from sync_failure_keeps_maps [of ?ka 0 "[]" "errorString ''down''" 1 "[]"] u t mu mt
  show ?thesis by simp
qed

text \<open>
  C7. For a subject that is neither a service account nor on the allowlist, the verdict
  follows the result of \<open>roleCheck\<close>: an error of \<open>roleCheck\<close>, whatever it is, gives
  the fixed error ``Keystone authorization failed''; no error and a role gives nil; no
  error and no role gives ``User not authorized through keystone for namespace''.
\<close>

theorem keystone_role_check_outcomes:
  assumes "\<not> HasPrefix (GetUserName a) ''system:serviceaccount:''"
    and "\<not> isWhiteListedUser (GetUserName a)"
    and "roleCheck (osClient ka) (map_index (userMap ka) (GetUserName a))
           (map_index (tenantMap ka) (GetNamespace a)) c = ((hasRole, err), c')"
  shows "keystoneAuthorizer_Authorize ka a c =
          (if err \<noteq> None then Some (errorString ''Keystone authorization failed'')
           else if hasRole then None
           else Some (errorString ''User not authorized through keystone for namespace''), c')"
  using assms by (auto simp: keystoneAuthorizer_Authorize_def errors_New_def)

lemma user1_not_privileged:
  "\<not> HasPrefix (GetUserName user1_tenant1) ''system:serviceaccount:''"
  "\<not> isWhiteListedUser (GetUserName user1_tenant1)"
  "\<not> HasPrefix (GetUserName user1_tenant3) ''system:serviceaccount:''"
  "\<not> isWhiteListedUser (GetUserName user1_tenant3)"
  by (simp_all add: user1_tenant1_def user1_tenant3_def GetUserName_def HasPrefix_def
        isWhiteListedUser_def whiteList_def)

theorem keystone_role_check_outcomes_witness:
  "keystoneAuthorizer_Authorize (sample_authorizer (failing_client (errorString ''connection refused'')))
      user1_tenant1 0 = (Some (errorString ''Keystone authorization failed''), 1)
   \<and> keystoneAuthorizer_Authorize (sample_authorizer (granting_client True)) user1_tenant1 0 = (None, 1)
   \<and> keystoneAuthorizer_Authorize (sample_authorizer (granting_client False)) user1_tenant1 0
      = (Some (errorString ''User not authorized through keystone for namespace''), 1)"
proof -
  let ?f = "sample_authorizer (failing_client (errorString ''connection refused''))"
  let ?t = "sample_authorizer (granting_client True)"
  let ?n = "sample_authorizer (granting_client False)"
  have f: "roleCheck (osClient ?f) (map_index (userMap ?f) (GetUserName user1_tenant1))
             (map_index (tenantMap ?f) (GetNamespace user1_tenant1)) 0
           = ((False, Some (errorString ''connection refused'')), 1)"
    by (simp add: sample_authorizer_def failing_client_def)
  have t: "roleCheck (osClient ?t) (map_index (userMap ?t) (GetUserName user1_tenant1))
             (map_index (tenantMap ?t) (GetNamespace user1_tenant1)) 0 = ((True, None), 1)"
    by (simp add: sample_authorizer_def granting_client_def)
  have n: "roleCheck (osClient ?n) (map_index (userMap ?n) (GetUserName user1_tenant1))
             (map_index (tenantMap ?n) (GetNamespace user1_tenant1)) 0 = ((False, None), 1)"
    by (simp add: sample_authorizer_def granting_client_def)
  from keystone_role_check_outcomes [OF user1_not_privileged(1,2) f]
    keystone_role_check_outcomes [OF user1_not_privileged(1,2) t]
    keystone_role_check_outcomes [OF user1_not_privileged(1,2) n]
  show ?thesis by simp
qed

text \<open>
  C9. With \<open>userMap = {user1: 12}\<close>, \<open>tenantMap = {tenant1: 123, tenant2: 234}\<close> and a
  role checker that is true exactly for the pairs (12, 123) and (12, 234), Authorize
  grants \<open>user1\<close> in namespace \<open>tenant1\<close> and denies \<open>user1\<close> in namespace \<open>tenant3\<close>.
\<close>

theorem keystone_end_to_end:
  "keystoneAuthorizer_Authorize (sample_authorizer sample_client) user1_tenant1 c = (None, Suc c)
   \<and> fst (keystoneAuthorizer_Authorize (sample_authorizer sample_client) user1_tenant3 c)
      = Some (errorString ''User not authorized through keystone for namespace'')"
  by (simp add: keystoneAuthorizer_Authorize_def HasPrefix_def isWhiteListedUser_def
        whiteList_def sample_authorizer_def sample_client_def sample_roleCheck_def
        map_index_def errors_New_def user1_tenant1_def user1_tenant3_def
        GetUserName_def GetNamespace_def)

text \<open>
  C10. \<open>OpenstackClient.roleCheck\<close> returns false and the error ``UserID null during
  authorization'' when the user id or the tenant id is empty, without reaching the
  provider. So with this client a subject or a namespace that the cache does not hold
  is denied with ``Keystone authorization failed''.
\<close>

theorem openstack_roleCheck_empty_id:
  "(userID = [] \<or> tenantID = [] \<longrightarrow>
      OpenstackClient_roleCheck authClient userID tenantID c
        = ((False, Some (errorString ''UserID null during authorization'')), c))
   \<and> (\<not> HasPrefix (GetUserName a) ''system:serviceaccount:''
        \<and> \<not> isWhiteListedUser (GetUserName a)
        \<and> osClient ka = OpenstackClient authClient
        \<and> (userMap ka (GetUserName a) = None \<or> tenantMap ka (GetNamespace a) = None) \<longrightarrow>
      keystoneAuthorizer_Authorize ka a c
        = (Some (errorString ''Keystone authorization failed''), c))"
  by (auto simp: OpenstackClient_roleCheck_def keystoneAuthorizer_Authorize_def
        OpenstackClient_def errors_New_def map_index_def)

theorem openstack_roleCheck_empty_id_witness:
  "OpenstackClient_roleCheck sample_service [] ''123'' 0
     = ((False, Some (errorString ''UserID null during authorization'')), 0)
   \<and> OpenstackClient_roleCheck sample_service ''12'' [] 0
     = ((False, Some (errorString ''UserID null during authorization'')), 0)
   \<and> tenantMap (sample_authorizer (OpenstackClient sample_service)) (GetNamespace user1_tenant3) = None
   \<and> keystoneAuthorizer_Authorize (sample_authorizer (OpenstackClient sample_service)) user1_tenant3 0
     = (Some (errorString ''Keystone authorization failed''), 0)
   \<and> keystoneAuthorizer_Authorize (sample_authorizer (OpenstackClient sample_service)) user1_tenant1 0
     = (None, 1)"
proof -
  let ?ka = "sample_authorizer (OpenstackClient sample_service)"
  have absent: "tenantMap ?ka (GetNamespace user1_tenant3) = None"
    by (simp add: sample_authorizer_def user1_tenant3_def GetNamespace_def)
  have client: "osClient ?ka = OpenstackClient sample_service"
    by (simp add: sample_authorizer_def)
  have present: "keystoneAuthorizer_Authorize ?ka user1_tenant1 0 = (None, 1)"
    by (simp add: keystoneAuthorizer_Authorize_def HasPrefix_def isWhiteListedUser_def
          whiteList_def sample_authorizer_def OpenstackClient_def OpenstackClient_roleCheck_def
          sample_service_def roleCheck_handler_def map_index_def user1_tenant1_def
          GetUserName_def GetNamespace_def)
  from openstack_roleCheck_empty_id [of "[]" "''123''" sample_service 0 user1_tenant3 ?ka]
    openstack_roleCheck_empty_id [of "''12''" "[]" sample_service 0 user1_tenant3 ?ka]
    user1_not_privileged(3,4) absent client present
  show ?thesis by simp
qed


section \<open>Properties of the request authenticator\<close>

subsection \<open>Base64: decoding undoes encoding\<close>

lemma length_encodeStd: "length encodeStd = 64"
  by (simp add: encodeStd_def)

lemma distinct_encodeStd: "distinct encodeStd"
  by (simp add: encodeStd_def)

lemma decodeMap_encode: "v < 64 \<Longrightarrow> decodeMap (encode v) = Some v"
  unfolding decodeMap_def encode_def
  using map_of_zip_nth [of encodeStd "[0..<length encodeStd]" v]
  by (simp add: length_encodeStd distinct_encodeStd)

lemma encode_in: "v < 64 \<Longrightarrow> encode v \<in> set encodeStd"
  by (simp add: encode_def length_encodeStd)

lemma encode_plain:
  assumes "v < 64"
  shows "encode v \<noteq> CHR ''=''" "encode v \<noteq> CHR 0x0D" "encode v \<noteq> CHR 0x0A" "encode v \<noteq> CHR '' ''"
proof -
  have "CHR ''='' \<notin> set encodeStd" "CHR 0x0D \<notin> set encodeStd" "CHR 0x0A \<notin> set encodeStd"
    "CHR '' '' \<notin> set encodeStd"
    by (simp_all add: encodeStd_def)
  with encode_in [OF assms] show "encode v \<noteq> CHR ''=''" "encode v \<noteq> CHR 0x0D"
    "encode v \<noteq> CHR 0x0A" "encode v \<noteq> CHR '' ''"
    by auto
qed


lemma shl4: "((a::nat) * 16) mod 64 = (a mod 4) * 16"
  using mult_mod_right [of 16 a 4] by (simp add: mult.commute)

lemma shl2: "((b::nat) * 4) mod 64 = (b mod 16) * 4"
  using mult_mod_right [of 4 b 16] by (simp add: mult.commute)

lemma shl6: "((v::nat) * 64) mod 256 = (v mod 4) * 64"
  using mult_mod_right [of 64 v 4] by (simp add: mult.commute)

lemma shl4': "((v::nat) * 16) mod 256 = (v mod 16) * 16"
  using mult_mod_right [of 16 v 16] by (simp add: mult.commute)

lemma sextets:
  fixes a b c :: nat
  shows "a < 256 \<Longrightarrow> a div 4 < 64" "(a * 16) mod 64 < 64" "(b * 4) mod 64 < 64" "c mod 64 < 64"
    "b < 256 \<Longrightarrow> (a * 16) mod 64 + b div 16 < 64"
    "c < 256 \<Longrightarrow> (b * 4) mod 64 + c div 64 < 64"
  unfolding shl4 shl2 by simp_all

lemma octet0:
  fixes a b :: nat
  assumes "a < 256" "w < 16"
  shows "(a div 4 * 4) mod 256 + ((a * 16) mod 64 + w) div 16 = a"
proof -
  have "a div 4 * 4 \<le> a" by simp
  with assms have "(a div 4 * 4) mod 256 = a div 4 * 4" by simp
  moreover from assms have "((a mod 4) * 16 + w) div 16 = a mod 4" by simp
  ultimately show ?thesis by (simp add: shl4)
qed

lemma octet1:
  fixes a b :: nat
  assumes "b < 256" "w < 4"
  shows "(((a * 16) mod 64 + b div 16) * 16) mod 256 + ((b * 4) mod 64 + w) div 4 = b"
proof -
  from assms have "b div 16 < 16" by simp
  then have "(((a mod 4) * 16 + b div 16) * 16) mod 256 = (b div 16) * 16"
    by (simp add: shl4' )
  moreover from assms have "((b mod 16) * 4 + w) div 4 = b mod 16" by simp
  ultimately show ?thesis by (simp add: shl4 shl2)
qed

lemma octet2:
  fixes b c :: nat
  assumes "c < 256"
  shows "(((b * 4) mod 64 + c div 64) * 64) mod 256 + c mod 64 = c"
proof -
  from assms have "c div 64 < 4" by simp
  then have "(((b mod 16) * 4 + c div 64) * 64) mod 256 = (c div 64) * 64"
    by (simp add: shl6)
  then show ?thesis by (simp add: shl2)
qed


lemma nibbles:
  fixes b :: nat
  shows "b < 256 \<Longrightarrow> b div 16 < 16" "b < 256 \<Longrightarrow> b div 64 < 4"
  by simp_all

lemmas char_nibbles = nibbles [OF nat_of_char_less_256]

lemma decode_EncodeToString: "decode (EncodeToString src) = Inr src"
proof (induction src rule: EncodeToString.induct)
  case 1
  show ?case by simp
next
  case (2 s0)
  show ?case
    using octet0 [of "of_char s0" 0]
    by (simp add: Let_def decodeMap_encode sextets encode_plain)
next
  case (3 s0 s1)
  show ?case
    using octet0 [of "of_char s0" "of_char s1 div 16"] octet1 [of "of_char s1" 0 "of_char s0"]
      char_nibbles [of s1]
    by (simp add: Let_def decodeMap_encode sextets encode_plain)
next
  case (4 s0 s1 s2 src)
  show ?case
    using octet0 [of "of_char s0" "of_char s1 div 16"]
      octet1 [of "of_char s1" "of_char s2 div 64" "of_char s0"]
      octet2 [of "of_char s2" "of_char s1"] "4.IH" char_nibbles [of s1] char_nibbles [of s2]
    by (simp add: Let_def decodeMap_encode sextets encode_plain)
qed

lemma EncodeToString_chars:
  "set (EncodeToString src) \<subseteq> insert (CHR ''='') (set encodeStd)"
  by (induction src rule: EncodeToString.induct) (auto simp: Let_def sextets intro: encode_in)

lemma removeNewlines_EncodeToString: "removeNewlines (EncodeToString src) = EncodeToString src"
proof -
  have "CHR 0x0D \<notin> insert (CHR ''='') (set encodeStd)" "CHR 0x0A \<notin> insert (CHR ''='') (set encodeStd)"
    by (simp_all add: encodeStd_def)
  with EncodeToString_chars [of src] show ?thesis
    unfolding removeNewlines_def by (intro filter_True) blast
qed

lemma DecodeString_EncodeToString: "DecodeString (EncodeToString src) = Inr src"
  by (simp add: DecodeString_def removeNewlines_EncodeToString decode_EncodeToString)
subsection \<open>The header of an encoded credential\<close>

lemma EncodeToString_eq_Nil: "EncodeToString src = [] \<longleftrightarrow> src = []"
  by (cases src rule: EncodeToString.cases) (simp_all add: Let_def)

lemma base64_chars_graphic:
  "c \<in> insert (CHR ''='') (set encodeStd) \<Longrightarrow> 32 < (of_char c :: nat) \<and> (of_char c :: nat) < 127"
  by (auto simp: encodeStd_def)

lemma space_runes_bytes:
  "r \<in> set space_runes \<Longrightarrow>
     r \<noteq> [] \<and> ((of_char (hd r) :: nat) \<le> 32 \<or> 127 \<le> (of_char (hd r) :: nat))
       \<and> ((of_char (last r) :: nat) \<le> 32 \<or> 127 \<le> (of_char (last r) :: nat))"
  by (auto simp: space_runes_def)

lemma HasPrefix_hd: "HasPrefix s r \<Longrightarrow> r \<noteq> [] \<Longrightarrow> hd s = hd r"
  by (cases r; cases s) (auto simp: HasPrefix_def)

lemma trim_runes_none:
  assumes "\<And>r. r \<in> set runes \<Longrightarrow> r \<noteq> [] \<Longrightarrow> \<not> HasPrefix s r"
  shows "trim_runes runes s = s"
proof -
  have "find (\<lambda>r. r \<noteq> [] \<and> HasPrefix s r) runes = None"
    using assms by (auto simp: find_None_iff)
  then show ?thesis by (subst trim_runes.simps) simp
qed

lemma TrimSpace_graphic:
  assumes "s \<noteq> []"
    and "32 < (of_char (hd s) :: nat)" "(of_char (hd s) :: nat) < 127"
    and "32 < (of_char (last s) :: nat)" "(of_char (last s) :: nat) < 127"
  shows "TrimSpace s = s"
proof -
  have front: "trim_runes space_runes s = s"
  proof (rule trim_runes_none)
    fix r assume r: "r \<in> set space_runes" "r \<noteq> []"
    show "\<not> HasPrefix s r"
    proof
      assume "HasPrefix s r"
      with r have "hd s = hd r" by (simp add: HasPrefix_hd)
      with space_runes_bytes [OF r(1)] assms(2,3) show False by auto
    qed
  qed
  have rear: "trim_runes (map rev space_runes) (rev s) = rev s"
  proof (rule trim_runes_none)
    fix r' assume r': "r' \<in> set (map rev space_runes)" "r' \<noteq> []"
    then obtain r where r: "r \<in> set space_runes" "r' = rev r" by auto
    show "\<not> HasPrefix (rev s) r'"
    proof
      assume "HasPrefix (rev s) r'"
      with r' have "hd (rev s) = hd r'" by (simp add: HasPrefix_hd)
      with r assms(1) space_runes_bytes [OF r(1)] have "last s = last r"
        by (simp add: hd_rev)
      with space_runes_bytes [OF r(1)] assms(4,5) show False by auto
    qed
  qed
  show ?thesis unfolding TrimSpace_def front rear by simp
qed

lemma Split_no_sep: "sep \<notin> set s \<Longrightarrow> Split s sep = [s]"
  by (induction s) auto

lemma Split_at_sep: "sep \<notin> set a \<Longrightarrow> Split (a @ sep # b) sep = a # Split b sep"
  by (induction a) auto

lemma SplitN_first_sep: "sep \<notin> set u \<Longrightarrow> SplitN (u @ sep # p) sep 2 = [u, p]"
  by (induction u) (auto simp: numeral_2_eq_2)

lemma ToLower_Basic: "ToLower ''Basic'' = ''basic''"
  by (simp add: lower_byte_def char_of_eq_iff take_bit_eq_mod)

lemma AuthenticateRequest_decode:
  "AuthenticateRequest a req w =
     (case decodeBasicAuth (Header_Get (Header req) ''Authorization'') of
        Inl err \<Rightarrow> ((None, False, Some err), w)
      | Inr (username, password) \<Rightarrow> authenticator_osClient a username password w)"
  by (simp add: AuthenticateRequest_def decodeBasicAuth_def Let_def split: sum.splits)

lemma decodeBasicAuth_of_encoded:
  assumes "payload \<noteq> []"
  shows "decodeBasicAuth (''Basic '' @ EncodeToString payload)
         = (if length (SplitN payload CHR '':'' 2) \<noteq> 2
            then Inl (errorString ''malformed basic auth header'')
            else Inr (SplitN payload CHR '':'' 2 ! 0, SplitN payload CHR '':'' 2 ! 1))"
proof -
  define enc where "enc = EncodeToString payload"
  define h where "h = ''Basic '' @ enc"
  have ne: "enc \<noteq> []" using assms by (simp add: enc_def EncodeToString_eq_Nil)
  have chars: "set enc \<subseteq> insert (CHR ''='') (set encodeStd)"
    unfolding enc_def by (rule EncodeToString_chars)
  from ne have "last enc \<in> set enc" by simp
  with chars have "last enc \<in> insert (CHR ''='') (set encodeStd)" by blast
  from base64_chars_graphic [OF this] ne have trim: "TrimSpace h = h"
    unfolding h_def by (intro TrimSpace_graphic) simp_all
  have hne: "h \<noteq> []" by (simp add: h_def)
  have "CHR '' '' \<notin> insert (CHR ''='') (set encodeStd)" by (simp add: encodeStd_def)
  with chars have "CHR '' '' \<notin> set enc" by blast
  then have split: "Split h CHR '' '' = [''Basic'', enc]"
    unfolding h_def using Split_at_sep [of "CHR '' ''" "''Basic''" enc] by (simp add: Split_no_sep)
  have dec: "DecodeString enc = Inr payload"
    unfolding enc_def by (rule DecodeString_EncodeToString)
  have "decodeBasicAuth h
         = (if length (SplitN payload CHR '':'' 2) \<noteq> 2
            then Inl (errorString ''malformed basic auth header'')
            else Inr (SplitN payload CHR '':'' 2 ! 0, SplitN payload CHR '':'' 2 ! 1))"
    by (simp add: decodeBasicAuth_def Let_def trim hne split dec ToLower_Basic errors_New_def
          del: ToLower.simps)
  then show ?thesis by (simp only: h_def enc_def)
qed

lemma decodeBasicAuth_encoded:
  assumes "CHR '':'' \<notin> set username"
  shows "decodeBasicAuth (''Basic '' @ EncodeToString (username @ '':'' @ password))
         = Inr (username, password)"
proof -
  have "SplitN (username @ '':'' @ password) CHR '':'' 2 = [username, password]"
    using SplitN_first_sep [OF assms, of password] by simp
  then show ?thesis
    by (subst decodeBasicAuth_of_encoded) simp_all
qed

lemma Header_Get_request_with: "Header_Get (Header (request_with header)) ''Authorization'' = header"
  by (simp add: request_with_def Header_Get_def)

text \<open>
  C8. Round trip: for a username without a colon and any password, colons allowed, the
  header value \<open>"Basic " + base64(username + ":" + password)\<close> decodes to exactly that
  username and that password, and a request that carries it makes \<open>AuthenticateRequest\<close>
  call the collaborator with exactly that pair.
\<close>

theorem basic_auth_round_trip:
  assumes "CHR '':'' \<notin> set username"
  shows "decodeBasicAuth (''Basic '' @ EncodeToString (username @ '':'' @ password))
           = Inr (username, password)
       \<and> (Header_Get (Header req) ''Authorization''
             = ''Basic '' @ EncodeToString (username @ '':'' @ password) \<longrightarrow>
           AuthenticateRequest a req w = authenticator_osClient a username password w)"
  using decodeBasicAuth_encoded [OF assms, of password]
  by (simp add: AuthenticateRequest_decode)

lemma encoded_samples:
  "EncodeToString ''user1:password1:withcolon'' = ''dXNlcjE6cGFzc3dvcmQxOndpdGhjb2xvbg==''"
  "EncodeToString ''user1:password2'' = ''dXNlcjE6cGFzc3dvcmQy''"
  "EncodeToString ''user1:'' = ''dXNlcjE6''"
  by code_simp+

theorem basic_auth_round_trip_witness:
  "CHR '':'' \<notin> set ''user1''
   \<and> decodeBasicAuth ''Basic dXNlcjE6cGFzc3dvcmQxOndpdGhjb2xvbg=='' = Inr (''user1'', ''password1:withcolon'')
   \<and> AuthenticateRequest \<lparr>authenticator_osClient = testOpenstackClient_AuthenticatePassword\<rparr>
        (request_with ''Basic dXNlcjE6cGFzc3dvcmQxOndpdGhjb2xvbg=='') (0::nat)
      = ((None, False, None), 0)"
proof -
  have c: "CHR '':'' \<notin> set ''user1''" by simp
  have e: "''Basic '' @ EncodeToString (''user1'' @ '':'' @ ''password1:withcolon'')
           = ''Basic dXNlcjE6cGFzc3dvcmQxOndpdGhjb2xvbg==''"
    using encoded_samples(1) by simp
  have t: "testOpenstackClient_AuthenticatePassword ''user1'' ''password1:withcolon'' (0::nat)
           = ((None, False, None), 0)"
    by (simp add: testOpenstackClient_AuthenticatePassword_def userPasswordMap_def map_index_def)
  have h: "Header_Get (Header (request_with ''Basic dXNlcjE6cGFzc3dvcmQxOndpdGhjb2xvbg=='')) ''Authorization''
           = ''Basic dXNlcjE6cGFzc3dvcmQxOndpdGhjb2xvbg==''"
    by (rule Header_Get_request_with)
  from basic_auth_round_trip [OF c, of "''password1:withcolon''"
      "request_with ''Basic dXNlcjE6cGFzc3dvcmQxOndpdGhjb2xvbg==''"
      "\<lparr>authenticator_osClient = testOpenstackClient_AuthenticatePassword\<rparr>" "0::nat"]
  show ?thesis unfolding e using c t h by simp
qed

lemma OpenstackClient_AuthenticatePassword_cases:
  "fst (OpenstackClient_AuthenticatePassword AuthenticatedClient authURL username password w)
     = (if fst (AuthenticatedClient
                  \<lparr>IdentityEndpoint = authURL, AuthOptions_Username = username,
                   AuthOptions_Password = password\<rparr> w) \<noteq> None
        then (None, False, Some (errorString ''Failed to authenticate''))
        else (Some \<lparr>Name = username, UID = [], Groups = []\<rparr>, True, None))"
  by (simp add: OpenstackClient_AuthenticatePassword_def errors_New_def Let_def
        split: prod.splits option.splits)

text \<open>
  C5, as amended. When the Authorization header decodes to a credential,
  \<open>AuthenticateRequest\<close> returns exactly what the password-checking collaborator returns
  for it; when the header is rejected, it returns no identity, false and the error of
  the rejecting step, and the collaborator is not called. Whether a wrong password is
  an error is therefore the collaborator's choice. The collaborator of this repository,
  \<open>OpenstackClient.AuthenticatePassword\<close>, returns no identity, false and the error
  ``Failed to authenticate'' whenever \<open>openstack.AuthenticatedClient\<close> fails, and the
  identity of the username, true and no error whenever it succeeds; it never returns
  false with no error.
\<close>

theorem authenticate_request_returns_collaborator_result:
  "(decodeBasicAuth (Header_Get (Header req) ''Authorization'') = Inr (username, password) \<longrightarrow>
      AuthenticateRequest a req w = authenticator_osClient a username password w)
   \<and> (decodeBasicAuth (Header_Get (Header req) ''Authorization'') = Inl err \<longrightarrow>
      AuthenticateRequest a req w = ((None, False, Some err), w))
   \<and> (fst (AuthenticatedClient
              \<lparr>IdentityEndpoint = authURL, AuthOptions_Username = username,
               AuthOptions_Password = password\<rparr> w') \<noteq> None \<longrightarrow>
      OpenstackClient_AuthenticatePassword AuthenticatedClient authURL username password w'
        = ((None, False, Some (errorString ''Failed to authenticate'')),
           snd (AuthenticatedClient
                  \<lparr>IdentityEndpoint = authURL, AuthOptions_Username = username,
                   AuthOptions_Password = password\<rparr> w')))
   \<and> (fst (AuthenticatedClient
              \<lparr>IdentityEndpoint = authURL, AuthOptions_Username = username,
               AuthOptions_Password = password\<rparr> w') = None \<longrightarrow>
      OpenstackClient_AuthenticatePassword AuthenticatedClient authURL username password w'
        = ((Some \<lparr>Name = username, UID = [], Groups = []\<rparr>, True, None),
           snd (AuthenticatedClient
                  \<lparr>IdentityEndpoint = authURL, AuthOptions_Username = username,
                   AuthOptions_Password = password\<rparr> w')))
   \<and> fst (OpenstackClient_AuthenticatePassword AuthenticatedClient authURL username password w')
        \<noteq> (None, False, None)
   \<and> fst (OpenstackClient_AuthenticatePassword AuthenticatedClient authURL username password w')
        \<in> {(None, False, Some (errorString ''Failed to authenticate'')),
            (Some \<lparr>Name = username, UID = [], Groups = []\<rparr>, True, None)}"
proof -
  have "OpenstackClient_AuthenticatePassword AuthenticatedClient authURL username password w'
        = (if fst (AuthenticatedClient
                     \<lparr>IdentityEndpoint = authURL, AuthOptions_Username = username,
                      AuthOptions_Password = password\<rparr> w') \<noteq> None
           then (None, False, Some (errorString ''Failed to authenticate''))
           else (Some \<lparr>Name = username, UID = [], Groups = []\<rparr>, True, None),
           snd (AuthenticatedClient
                  \<lparr>IdentityEndpoint = authURL, AuthOptions_Username = username,
                   AuthOptions_Password = password\<rparr> w'))"
    by (simp add: OpenstackClient_AuthenticatePassword_def errors_New_def Let_def
          split: prod.splits option.splits)
  then show ?thesis
    by (simp add: AuthenticateRequest_decode)
qed

lemma decoded_samples:
  "decodeBasicAuth ''Basic dXNlcjE6cGFzc3dvcmQy'' = Inr (''user1'', ''password2'')"
  "decodeBasicAuth ''Bearer foo'' = Inl (errorString ''invalid header'')"
proof -
  have "CHR '':'' \<notin> set ''user1''" by simp
  from decodeBasicAuth_encoded [OF this, of "''password2''"] encoded_samples(2)
  show "decodeBasicAuth ''Basic dXNlcjE6cGFzc3dvcmQy'' = Inr (''user1'', ''password2'')"
    by simp
  have "TrimSpace ''Bearer foo'' = ''Bearer foo''"
    by (rule TrimSpace_graphic) simp_all
  then show "decodeBasicAuth ''Bearer foo'' = Inl (errorString ''invalid header'')"
    by (simp add: decodeBasicAuth_def Let_def lower_byte_def errors_New_def
          char_of_eq_iff take_bit_eq_mod)
qed

theorem authenticate_request_returns_collaborator_result_witness:
  "decodeBasicAuth (Header_Get (Header (request_with ''Basic dXNlcjE6cGFzc3dvcmQy'')) ''Authorization'')
      = Inr (''user1'', ''password2'')
   \<and> AuthenticateRequest \<lparr>authenticator_osClient = testOpenstackClient_AuthenticatePassword\<rparr>
        (request_with ''Basic dXNlcjE6cGFzc3dvcmQy'') (0::nat) = ((None, False, None), 0)
   \<and> decodeBasicAuth (Header_Get (Header (request_with ''Bearer foo'')) ''Authorization'')
      = Inl (errorString ''invalid header'')
   \<and> AuthenticateRequest \<lparr>authenticator_osClient = testOpenstackClient_AuthenticatePassword\<rparr>
        (request_with ''Bearer foo'') (0::nat) = ((None, False, Some (errorString ''invalid header'')), 0)
   \<and> fst (keystone_stub \<lparr>IdentityEndpoint = ''https://auth-url/v2.0'',
          AuthOptions_Username = ''user1'', AuthOptions_Password = ''password2''\<rparr> 0) \<noteq> None
   \<and> OpenstackClient_AuthenticatePassword keystone_stub ''https://auth-url/v2.0''
        ''user1'' ''password2'' 0
      = ((None, False, Some (errorString ''Failed to authenticate'')), 1)
   \<and> fst (keystone_stub \<lparr>IdentityEndpoint = ''https://auth-url/v2.0'',
          AuthOptions_Username = ''user1'', AuthOptions_Password = ''password1''\<rparr> 0) = None
   \<and> OpenstackClient_AuthenticatePassword keystone_stub ''https://auth-url/v2.0''
        ''user1'' ''password1'' 0
      = ((Some \<lparr>Name = ''user1'', UID = [], Groups = []\<rparr>, True, None), 1)"
proof -
  let ?a = "\<lparr>authenticator_osClient = testOpenstackClient_AuthenticatePassword :: nat Password\<rparr>"
  let ?url = "''https://auth-url/v2.0''"
  have ok: "decodeBasicAuth (Header_Get (Header (request_with ''Basic dXNlcjE6cGFzc3dvcmQy'')) ''Authorization'')
      = Inr (''user1'', ''password2'')"
    by (simp only: Header_Get_request_with decoded_samples)
  have bad: "decodeBasicAuth (Header_Get (Header (request_with ''Bearer foo'')) ''Authorization'')
      = Inl (errorString ''invalid header'')"
    by (simp only: Header_Get_request_with decoded_samples)
  have t: "testOpenstackClient_AuthenticatePassword ''user1'' ''password2'' (0::nat)
           = ((None, False, None), 0)"
    by (simp add: testOpenstackClient_AuthenticatePassword_def userPasswordMap_def map_index_def)
  have rejected: "keystone_stub \<lparr>IdentityEndpoint = ?url,
      AuthOptions_Username = ''user1'', AuthOptions_Password = ''password2''\<rparr> 0
      = (Some (errorString ''Authentication failed''), 1)"
    by (simp add: keystone_stub_def)
  have accepted: "keystone_stub \<lparr>IdentityEndpoint = ?url,
      AuthOptions_Username = ''user1'', AuthOptions_Password = ''password1''\<rparr> 0 = (None, 1)"
    by (simp add: keystone_stub_def)
  from authenticate_request_returns_collaborator_result
         [of "request_with ''Basic dXNlcjE6cGFzc3dvcmQy''" "''user1''" "''password2''" ?a 0
             "errorString ''invalid header''" keystone_stub ?url 0]
       authenticate_request_returns_collaborator_result
         [of "request_with ''Bearer foo''" "''user1''" "''password1''" ?a 0
             "errorString ''invalid header''" keystone_stub ?url 0]
       ok bad t rejected accepted
  show ?thesis by simp
qed

text \<open>
  C5 as stated fails: with \<open>OpenstackClient.AuthenticatePassword\<close> as the collaborator
  and an identity service that knows \<open>user1\<close> with \<open>password1\<close>, the well-formed header
  of \<open>user1:password2\<close> yields the error ``Failed to authenticate'', not a nil error.
\<close>

theorem wrong_password_is_an_error_counterexample:
  "decodeBasicAuth (Header_Get (Header (request_with ''Basic dXNlcjE6cGFzc3dvcmQy'')) ''Authorization'')
      = Inr (''user1'', ''password2'')
   \<and> AuthenticateRequest
        \<lparr>authenticator_osClient = OpenstackClient_AuthenticatePassword keystone_stub ''https://auth-url/v2.0''\<rparr>
        (request_with ''Basic dXNlcjE6cGFzc3dvcmQy'') 0
      = ((None, False, Some (errorString ''Failed to authenticate'')), 1)
   \<and> AuthenticateRequest
        \<lparr>authenticator_osClient = OpenstackClient_AuthenticatePassword keystone_stub ''https://auth-url/v2.0''\<rparr>
        (request_with ''Basic dXNlcjE6cGFzc3dvcmQy'') 0
      \<noteq> ((None, False, None), 1)"
proof -
  have ok: "decodeBasicAuth (Header_Get (Header (request_with ''Basic dXNlcjE6cGFzc3dvcmQy'')) ''Authorization'')
      = Inr (''user1'', ''password2'')"
    by (simp only: Header_Get_request_with decoded_samples)
  have "OpenstackClient_AuthenticatePassword keystone_stub ''https://auth-url/v2.0''
          ''user1'' ''password2'' 0
        = ((None, False, Some (errorString ''Failed to authenticate'')), 1)"
    by (simp add: OpenstackClient_AuthenticatePassword_def keystone_stub_def errors_New_def)
  with ok show ?thesis by (simp add: AuthenticateRequest_decode)
qed


section \<open>The repository's tests, on the model\<close>

text \<open>
  The encoder on the test vectors of RFC 4648, the table of \<open>TestKeystoneAuth\<close> (the
  headers of the authenticator's test with the results the test expects) and the table
  of \<open>TestAuthorize\<close>.
\<close>

lemma EncodeToString_rfc4648:
  "EncodeToString '''' = ''''"
  "EncodeToString ''f'' = ''Zg==''"
  "EncodeToString ''fo'' = ''Zm8=''"
  "EncodeToString ''foo'' = ''Zm9v''"
  "EncodeToString ''foob'' = ''Zm9vYg==''"
  "EncodeToString ''fooba'' = ''Zm9vYmE=''"
  "EncodeToString ''foobar'' = ''Zm9vYmFy''"
  by code_simp+

lemma TestKeystoneAuth_headers:
  "decodeBasicAuth '''' = Inl (errorString ''Authorization header isempty, failing request'')"
  "decodeBasicAuth ''Bearer foo'' = Inl (errorString ''invalid header'')"
  "decodeBasicAuth ''Basic'' = Inl (errorString ''invalid header'')"
  "decodeBasicAuth ''Basic  '' = Inl (errorString ''invalid header'')"
  "decodeBasicAuth ''Basic !@#$'' = Inl CorruptInputError"
  "decodeBasicAuth (''Basic '' @ EncodeToString ''user_without_password'')
     = Inl (errorString ''malformed basic auth header'')"
  "decodeBasicAuth (''Basic '' @ EncodeToString ''user1:'') = Inr (''user1'', '''')"
  "decodeBasicAuth (''Basic '' @ EncodeToString ''user1:password1:withcolon'')
     = Inr (''user1'', ''password1:withcolon'')"
  "decodeBasicAuth (''Basic '' @ EncodeToString ''user1:password1'') = Inr (''user1'', ''password1'')"
  "decodeBasicAuth (''Basic '' @ EncodeToString ''user1:password2'') = Inr (''user1'', ''password2'')"
proof -
  show "decodeBasicAuth '''' = Inl (errorString ''Authorization header isempty, failing request'')"
    "decodeBasicAuth ''Bearer foo'' = Inl (errorString ''invalid header'')"
    "decodeBasicAuth ''Basic'' = Inl (errorString ''invalid header'')"
    "decodeBasicAuth ''Basic  '' = Inl (errorString ''invalid header'')"
    "decodeBasicAuth ''Basic !@#$'' = Inl CorruptInputError"
    by code_simp+
  show "decodeBasicAuth (''Basic '' @ EncodeToString ''user_without_password'')
     = Inl (errorString ''malformed basic auth header'')"
    by (subst decodeBasicAuth_of_encoded) (simp_all add: numeral_2_eq_2)
  show "decodeBasicAuth (''Basic '' @ EncodeToString ''user1:'') = Inr (''user1'', '''')"
    "decodeBasicAuth (''Basic '' @ EncodeToString ''user1:password1:withcolon'')
       = Inr (''user1'', ''password1:withcolon'')"
    "decodeBasicAuth (''Basic '' @ EncodeToString ''user1:password1'') = Inr (''user1'', ''password1'')"
    "decodeBasicAuth (''Basic '' @ EncodeToString ''user1:password2'') = Inr (''user1'', ''password2'')"
    by (subst decodeBasicAuth_of_encoded; simp add: numeral_2_eq_2)+
qed

lemma TestKeystoneAuth:
  fixes w :: 'w
  defines "auth \<equiv> \<lparr>authenticator_osClient = testOpenstackClient_AuthenticatePassword :: 'w Password\<rparr>"
  shows
    "AuthenticateRequest auth \<lparr>Header = Map.empty\<rparr> w
       = ((None, False, Some (errorString ''Authorization header isempty, failing request'')), w)"
    "AuthenticateRequest auth (request_with ''Bearer foo'') w
       = ((None, False, Some (errorString ''invalid header'')), w)"
    "AuthenticateRequest auth (request_with ''Basic'') w
       = ((None, False, Some (errorString ''invalid header'')), w)"
    "AuthenticateRequest auth (request_with ''Basic  '') w
       = ((None, False, Some (errorString ''invalid header'')), w)"
    "AuthenticateRequest auth (request_with ''Basic !@#$'') w
       = ((None, False, Some CorruptInputError), w)"
    "AuthenticateRequest auth (request_with (''Basic '' @ EncodeToString ''user_without_password'')) w
       = ((None, False, Some (errorString ''malformed basic auth header'')), w)"
    "AuthenticateRequest auth (request_with (''Basic '' @ EncodeToString ''user1:'')) w
       = ((None, False, None), w)"
    "AuthenticateRequest auth (request_with (''Basic '' @ EncodeToString ''user1:password1:withcolon'')) w
       = ((None, False, None), w)"
    "AuthenticateRequest auth (request_with (''Basic '' @ EncodeToString ''user1:password1'')) w
       = ((Some \<lparr>Name = ''user1'', UID = [], Groups = []\<rparr>, True, None), w)"
    "AuthenticateRequest auth (request_with (''Basic '' @ EncodeToString ''user1:password2'')) w
       = ((None, False, None), w)"
  unfolding auth_def AuthenticateRequest_decode Header_Get_request_with TestKeystoneAuth_headers
  by (simp_all add: Header_Get_def TestKeystoneAuth_headers(1)
        testOpenstackClient_AuthenticatePassword_def userPasswordMap_def map_index_def)

lemma TestAuthorize_maps:
  "userMap (TestAuthorize_auth c)
     = [''user1'' \<mapsto> ''12'', ''user2'' \<mapsto> ''23'', ''user3'' \<mapsto> ''34'', ''user4'' \<mapsto> ''56'']"
  "tenantMap (TestAuthorize_auth c)
     = [''tenant1'' \<mapsto> ''123'', ''tenant2'' \<mapsto> ''234'', ''tenant3'' \<mapsto> ''345'']"
  "osClient (TestAuthorize_auth c) = testOpenstackClient"
  by (simp_all add: TestAuthorize_auth_def Let_def syncTenantMap_def syncUserMap_def
        testOpenstackClient_def getUserSampleSet_def getTenantSampleSet_def)

lemma TestAuthorize:
  "fst (keystoneAuthorizer_Authorize (TestAuthorize_auth c) \<lparr>UserName = '''', Namespace = ''''\<rparr> c) \<noteq> None"
  "fst (keystoneAuthorizer_Authorize (TestAuthorize_auth c) \<lparr>UserName = ''user1'', Namespace = ''''\<rparr> c) \<noteq> None"
  "fst (keystoneAuthorizer_Authorize (TestAuthorize_auth c) \<lparr>UserName = ''user1'', Namespace = ''tenant1''\<rparr> c) = None"
  "fst (keystoneAuthorizer_Authorize (TestAuthorize_auth c) \<lparr>UserName = ''user1'', Namespace = ''tenant2''\<rparr> c) = None"
  "fst (keystoneAuthorizer_Authorize (TestAuthorize_auth c) \<lparr>UserName = ''user3'', Namespace = ''tenant1''\<rparr> c) \<noteq> None"
  by (simp_all add: keystoneAuthorizer_Authorize_def TestAuthorize_maps HasPrefix_def
        isWhiteListedUser_def whiteList_def GetUserName_def GetNamespace_def map_index_def
        testOpenstackClient_def sampleRoleSet_def Let_def)

end
